theory Spec2Isabelle
  imports Main "HOL-Library.Word"
begin

unbundle bit_operations_syntax

section \<open>Failures\<close>

text \<open>
  Every way in which a call of the modelled code can fail is a value:
  a failed \<^verbatim>\<open>assert\<close>, a failed \<^verbatim>\<open>static_assert\<close> (the program is rejected
  when it is built) and a thrown \<^verbatim>\<open>std::logic_error\<close>.
\<close>

datatype error =
    Assertion_failure
  | Static_assertion string
  | Logic_error string

text \<open>
  Only an exception is reported to the caller, who can handle it: a failed
  \<^verbatim>\<open>assert\<close> aborts the process, and the caller never gets control back; a failed
  \<^verbatim>\<open>static_assert\<close> leaves no program to run.
\<close>

fun reported_to_caller :: "error \<Rightarrow> bool" where
  "reported_to_caller Assertion_failure = False"
| "reported_to_caller (Static_assertion msg) = False"
| "reported_to_caller (Logic_error msg) = True"

section \<open>Lock unit (lock.hpp)\<close>

text \<open>
  A locking device holds a mutex \<open>m\<close>, a condition variable \<open>cv\<close> and the boolean
  \<open>value\<close>. The mutex is represented by the fiber holding it (if any), the condition
  variable by the queue of fibers suspended in its \<^verbatim>\<open>wait\<close>.
\<close>

type_synonym fiber = nat

record locking_device =
  m :: "fiber option"
  cv :: "fiber list"
  value' :: bool

definition lock_number :: int where
  "lock_number = 16"

text \<open>A device as its default member initialisers leave it.\<close>

definition locking_device_new :: locking_device where
  "locking_device_new = \<lparr>m = None, cv = [], value' = False\<rparr>"

record lock_unit =
  locks :: "locking_device list"

definition lock_unit_new :: lock_unit where
  "lock_unit_new = \<lparr>locks = replicate (nat lock_number) locking_device_new\<rparr>"

text \<open>
  \<^verbatim>\<open>lock_unit::lock(int i)\<close>: the assertion guards the array access. The model is
  that of a build with assertions (\<^verbatim>\<open>NDEBUG\<close> not defined); without them the index is
  not checked at all.
\<close>

definition lock :: "lock_unit \<Rightarrow> int \<Rightarrow> error + locking_device" where
  "lock lu i =
     (if 0 \<le> i \<and> i < lock_number then Inr (locks lu ! nat i) else Inl Assertion_failure)"

section \<open>Tile infrastructure (tile\_infrastructure.hpp)\<close>

text \<open>
  A callable handed to \<^verbatim>\<open>single_task\<close> is represented by what joining it
  observes: it completes, it raises, or it never completes.
  \<open>future_work\<close> is the future of the tile: \<open>None\<close> is a future without shared
  state (\<^verbatim>\<open>valid()\<close> is false), \<open>Some w\<close> a future on the work \<open>w\<close>.
\<close>

datatype work = Completes | Raises string | Never_completes

record tile_infrastructure =
  x_coordinate :: int
  y_coordinate :: int
  future_work :: "work option"

definition valid :: "work option \<Rightarrow> bool" where
  "valid f = (f \<noteq> None)"

text \<open>The constructor leaves \<open>future_work\<close> default-constructed.\<close>

definition tile_infrastructure_new :: "int \<Rightarrow> int \<Rightarrow> tile_infrastructure" where
  "tile_infrastructure_new x y = \<lparr>x_coordinate = x, y_coordinate = y, future_work = None\<rparr>"

text \<open>
  \<^verbatim>\<open>single_task\<close> returns the exception it throws (if any) together with the
  tile as the call leaves it.
\<close>

definition single_task :: "work \<Rightarrow> tile_infrastructure \<Rightarrow> error option \<times> tile_infrastructure" where
  "single_task f ti =
     (if valid (future_work ti)
      then (Some (Logic_error ''Something is already running on this tile!''), ti)
      else (None, ti\<lparr>future_work := Some f\<rparr>))"

text \<open>
  \<^verbatim>\<open>wait\<close>: \<^verbatim>\<open>future_work.get()\<close> blocks until the work is over, rethrows what
  the work raised and releases the shared state.
\<close>

datatype wait_result =
    Returned tile_infrastructure
  | Rethrown string tile_infrastructure
  | Blocked_forever

definition wait :: "tile_infrastructure \<Rightarrow> wait_result" where
  "wait ti =
     (if valid (future_work ti)
      then (case future_work ti of
              Some Completes \<Rightarrow> Returned (ti\<lparr>future_work := None\<rparr>)
            | Some (Raises e) \<Rightarrow> Rethrown e (ti\<lparr>future_work := None\<rparr>)
            | Some Never_completes \<Rightarrow> Blocked_forever
            | None \<Rightarrow> Returned ti)
      else Returned ti)"

section \<open>Geography\<close>

text \<open>
  The tile code consults the geography of the array through \<^verbatim>\<open>geo::\<close>. The
  functions of \<^verbatim>\<open>tile.hpp\<close> below take the geography as a parameter.
\<close>

record geography =
  geo_is_west_column :: "int \<Rightarrow> bool"
  geo_is_east_column :: "int \<Rightarrow> bool"
  geo_is_memory_module :: "int \<Rightarrow> int \<Rightarrow> int \<Rightarrow> int \<Rightarrow> bool"
  geo_memory_module_linear_id :: "int \<Rightarrow> int \<Rightarrow> int \<Rightarrow> int \<Rightarrow> int"

text \<open>\<^verbatim>\<open>layout::size<X_size, Y_size>\<close> of \<^verbatim>\<open>size.hpp\<close>.\<close>

record layout =
  x_max :: int
  y_max :: int

definition layout_size :: "int \<Rightarrow> int \<Rightarrow> layout" where
  "layout_size X_size Y_size = \<lparr>x_max = X_size - 1, y_max = Y_size - 1\<rparr>"

text \<open>
  Modelled from the spec: \<^verbatim>\<open>geography.hpp\<close> is not among the sources. The geography
  of a layout follows the data model of the specification and the messages of the static
  assertions of \<^verbatim>\<open>tile.hpp\<close>: columns run from 0 (West) to \<open>x_max\<close> (East), rows from
  0 (South) to \<open>y_max\<close> (North); there is no memory module on the West of the Western
  column on an even row, on the East of the Eastern column on an odd row, below the
  Southern row and above the Northern row; the memory module native to a tile has the
  coordinates of the tile and lies on its East on an even row, on its West on an odd row;
  positions are linearised row by row.
\<close>

definition geography_of :: "layout \<Rightarrow> geography" where
  "geography_of l =
     \<lparr>geo_is_west_column = (\<lambda>x. x = 0),
      geo_is_east_column = (\<lambda>x. x = x_max l),
      geo_is_memory_module = (\<lambda>x y dx dy.
         ((dx = 0 \<and> (dy = 1 \<or> dy = - 1)) \<or> (dy = 0 \<and> (dx = 1 \<or> dx = - 1)))
         \<and> \<not> (x = 0 \<and> dx = - 1 \<and> even y)
         \<and> \<not> (x = x_max l \<and> dx = 1 \<and> odd y)
         \<and> \<not> (y = 0 \<and> dy = - 1)
         \<and> \<not> (y = y_max l \<and> dy = 1)),
      geo_memory_module_linear_id = (\<lambda>x y dx dy.
         (if dx = 0 then x else if odd y then x + (dx + 1) div 2 else x + (dx - 1) div 2)
         + (x_max l + 1) * (y + dy))\<rparr>"

section \<open>Tile (tile.hpp)\<close>

text \<open>
  A tile is given by the geography \<open>g\<close> of its program and its template parameters
  \<open>X\<close> and \<open>Y\<close>. A memory module is designated by its linear identifier.
\<close>

definition is_west_column :: "geography \<Rightarrow> int \<Rightarrow> bool" where
  "is_west_column g X = geo_is_west_column g X"

definition is_east_column :: "geography \<Rightarrow> int \<Rightarrow> bool" where
  "is_east_column g X = geo_is_east_column g X"

definition is_memory_module :: "geography \<Rightarrow> int \<Rightarrow> int \<Rightarrow> int \<Rightarrow> int \<Rightarrow> bool" where
  "is_memory_module g X Y dx dy = geo_is_memory_module g X Y dx dy"

definition is_memory_module_west :: "geography \<Rightarrow> int \<Rightarrow> int \<Rightarrow> bool" where
  "is_memory_module_west g X Y = is_memory_module g X Y (- 1) 0"

definition is_memory_module_east :: "geography \<Rightarrow> int \<Rightarrow> int \<Rightarrow> bool" where
  "is_memory_module_east g X Y = is_memory_module g X Y 1 0"

definition memory_module_linear_id :: "geography \<Rightarrow> int \<Rightarrow> int \<Rightarrow> int \<Rightarrow> int \<Rightarrow> int" where
  "memory_module_linear_id g X Y dx dy = geo_memory_module_linear_id g X Y dx dy"

definition mem_west :: "geography \<Rightarrow> int \<Rightarrow> int \<Rightarrow> error + int" where
  "mem_west g X Y =
     (if is_memory_module_west g X Y then Inr (memory_module_linear_id g X Y (- 1) 0)
      else Inl (Static_assertion
        ''There is no memory module on the West of this tile in the Western column and on an even row''))"

definition mem_east :: "geography \<Rightarrow> int \<Rightarrow> int \<Rightarrow> error + int" where
  "mem_east g X Y =
     (if is_memory_module_east g X Y then Inr (memory_module_linear_id g X Y 1 0)
      else Inl (Static_assertion
        ''There is no memory module on the East of this tile in the Eastern column and on an odd row''))"

text \<open>The memory module native to the tile: \<^verbatim>\<open>mem()\<close>.\<close>

definition mem :: "geography \<Rightarrow> int \<Rightarrow> int \<Rightarrow> error + int" where
  "mem g X Y = (if Y AND 1 \<noteq> 0 then mem_west g X Y else mem_east g X Y)"

text \<open>
  A barrier is represented by the calls it issues on locking devices, in program order:
  the memory module, the lock index and the value. A call that does not build, or whose
  lock index fails the assertion of \<open>lock\<close>, ends the sequence with that failure.
\<close>

datatype lock_call =
    Acquire_with_value int int bool
  | Release_with_value int int bool

definition acquire_with_value_on :: "error + int \<Rightarrow> int \<Rightarrow> bool \<Rightarrow> error + lock_call" where
  "acquire_with_value_on mm l v =
     (case mm of Inl e \<Rightarrow> Inl e
      | Inr i \<Rightarrow> if 0 \<le> l \<and> l < lock_number then Inr (Acquire_with_value i l v)
                 else Inl Assertion_failure)"

definition release_with_value_on :: "error + int \<Rightarrow> int \<Rightarrow> bool \<Rightarrow> error + lock_call" where
  "release_with_value_on mm l v =
     (case mm of Inl e \<Rightarrow> Inl e
      | Inr i \<Rightarrow> if 0 \<le> l \<and> l < lock_number then Inr (Release_with_value i l v)
                 else Inl Assertion_failure)"

fun in_sequence :: "(error + lock_call) list \<Rightarrow> error + lock_call list" where
  "in_sequence [] = Inr []"
| "in_sequence (c # cs) =
     (case c of Inl e \<Rightarrow> Inl e
      | Inr a \<Rightarrow> (case in_sequence cs of Inl e \<Rightarrow> Inl e | Inr as \<Rightarrow> Inr (a # as)))"

definition horizontal_barrier :: "geography \<Rightarrow> int \<Rightarrow> int \<Rightarrow> int \<Rightarrow> error + lock_call list" where
  "horizontal_barrier g X Y l =
     (if Y AND 1 \<noteq> 0 then
        in_sequence
         ((if \<not> is_west_column g X
           then [acquire_with_value_on (mem g X Y) l True] else []) @
          (if is_memory_module_east g X Y
           then [acquire_with_value_on (mem_east g X Y) l False,
                 release_with_value_on (mem_east g X Y) l True,
                 acquire_with_value_on (mem_east g X Y) l False] else []) @
          (if \<not> is_west_column g X
           then [release_with_value_on (mem g X Y) l False] else []))
      else
        in_sequence
         ((if \<not> is_east_column g X
           then [acquire_with_value_on (mem g X Y) l True] else []) @
          (if is_memory_module_west g X Y
           then [acquire_with_value_on (mem_west g X Y) l False,
                 release_with_value_on (mem_west g X Y) l True,
                 acquire_with_value_on (mem_west g X Y) l False] else []) @
          (if \<not> is_east_column g X
           then [release_with_value_on (mem g X Y) l False] else [])))"

text \<open>
  The memory modules on which a sequence of calls waits for the token
  (\<^verbatim>\<open>acquire_with_value(true)\<close>) and those on which it hands the token on
  (\<^verbatim>\<open>release_with_value(true)\<close>).
\<close>

fun waits_on :: "lock_call list \<Rightarrow> int list" where
  "waits_on [] = []"
| "waits_on (Acquire_with_value i l v # cs) = (if v then i # waits_on cs else waits_on cs)"
| "waits_on (Release_with_value i l v # cs) = waits_on cs"

fun drives :: "lock_call list \<Rightarrow> int list" where
  "drives [] = []"
| "drives (Release_with_value i l v # cs) = (if v then i # drives cs else drives cs)"
| "drives (Acquire_with_value i l v # cs) = drives cs"

section \<open>Fibers on a locking device (lock.hpp)\<close>

text \<open>
  The calls \<^verbatim>\<open>acquire_with_value\<close> and \<^verbatim>\<open>release_with_value\<close> of several fibers on
  one locking device interleave at the operations on the mutex and the condition
  variable. A fiber is at one of the following points:
  \<^item> \<open>Acquire_entry e\<close>: it has called \<^verbatim>\<open>acquire_with_value(e)\<close> and is about to lock
    \<open>m\<close> (\<^verbatim>\<open>std::unique_lock lk { *m }\<close>);
  \<^item> \<open>Acquire_test e\<close>: it holds \<open>m\<close> and is about to evaluate the predicate
    \<^verbatim>\<open>expectation == value\<close> of \<^verbatim>\<open>cv->wait(lk, pred)\<close>, which is
    \<^verbatim>\<open>while (!pred()) wait(lk)\<close>;
  \<^item> \<open>Acquire_suspended e\<close>: it is suspended in \<^verbatim>\<open>wait(lk)\<close>, having released \<open>m\<close>;
  \<^item> \<open>Acquire_notified e\<close>: it has been notified and is about to lock \<open>m\<close> again;
  \<^item> \<open>Release_entry v\<close>: it has called \<^verbatim>\<open>release_with_value(v)\<close> and is about to
    lock \<open>m\<close>;
  \<^item> \<open>Release_store v\<close>: it holds \<open>m\<close> and is about to store the value and unlock;
  \<^item> \<open>Release_notify\<close>: it is about to call \<^verbatim>\<open>cv->notify_one()\<close>;
  \<^item> \<open>Call_returned\<close>: its call has returned.
\<close>

datatype pc =
    Acquire_entry bool
  | Acquire_test bool
  | Acquire_suspended bool
  | Acquire_notified bool
  | Release_entry bool
  | Release_store bool
  | Release_notify
  | Call_returned

record lock_system =
  device :: locking_device
  at :: "fiber \<Rightarrow> pc"

text \<open>Waking a fiber that is suspended in the condition variable.\<close>

definition notified :: "pc \<Rightarrow> pc" where
  "notified p = (case p of Acquire_suspended e \<Rightarrow> Acquire_notified e | _ \<Rightarrow> p)"

text \<open>
  One step of the fiber \<open>t\<close>; \<open>None\<close> when \<open>t\<close> cannot move: it waits for the mutex,
  it is suspended in the condition variable, or its call has returned.
\<close>

definition step :: "fiber \<Rightarrow> lock_system \<Rightarrow> lock_system option" where
  "step t s =
     (let d = device s in
      case at s t of
        Acquire_entry e \<Rightarrow>
          (if m d = None
           then Some (s\<lparr>device := d\<lparr>m := Some t\<rparr>, at := (at s)(t := Acquire_test e)\<rparr>)
           else None)
      | Acquire_test e \<Rightarrow>
          (if e = value' d
           then Some (s\<lparr>device := d\<lparr>m := None\<rparr>, at := (at s)(t := Call_returned)\<rparr>)
           else Some (s\<lparr>device := d\<lparr>m := None, cv := cv d @ [t]\<rparr>,
                        at := (at s)(t := Acquire_suspended e)\<rparr>))
      | Acquire_suspended e \<Rightarrow> None
      | Acquire_notified e \<Rightarrow>
          (if m d = None
           then Some (s\<lparr>device := d\<lparr>m := Some t\<rparr>, at := (at s)(t := Acquire_test e)\<rparr>)
           else None)
      | Release_entry v \<Rightarrow>
          (if m d = None
           then Some (s\<lparr>device := d\<lparr>m := Some t\<rparr>, at := (at s)(t := Release_store v)\<rparr>)
           else None)
      | Release_store v \<Rightarrow>
          Some (s\<lparr>device := d\<lparr>value' := v, m := None\<rparr>, at := (at s)(t := Release_notify)\<rparr>)
      | Release_notify \<Rightarrow>
          (case cv d of
             [] \<Rightarrow> Some (s\<lparr>at := (at s)(t := Call_returned)\<rparr>)
           | w # ws \<Rightarrow>
               Some (s\<lparr>device := d\<lparr>cv := ws\<rparr>,
                       at := (at s)(w := notified (at s w), t := Call_returned)\<rparr>))
      | Call_returned \<Rightarrow> None)"

text \<open>Running the fibers in the order of a schedule, one step each.\<close>

fun run :: "fiber list \<Rightarrow> lock_system \<Rightarrow> lock_system option" where
  "run [] s = Some s"
| "run (t # ts) s = (case step t s of None \<Rightarrow> None | Some s' \<Rightarrow> run ts s')"

text \<open>The fiber is inside a call of \<^verbatim>\<open>acquire_with_value(e)\<close>.\<close>

fun acquiring :: "bool \<Rightarrow> pc \<Rightarrow> bool" where
  "acquiring e (Acquire_entry e') = (e' = e)"
| "acquiring e (Acquire_test e') = (e' = e)"
| "acquiring e (Acquire_suspended e') = (e' = e)"
| "acquiring e (Acquire_notified e') = (e' = e)"
| "acquiring e p = False"

section \<open>Device allocator (device\_allocator.hpp)\<close>

text \<open>
  The allocator runs on the device: a 32-bit little-endian machine whose addresses,
  \<^verbatim>\<open>uint32_t\<close> and \<^verbatim>\<open>size_t\<close> are 32-bit words, so that every sum and difference
  wraps around at \<open>2 ^ 32\<close>. The memory of the tile is an array of bytes indexed by
  addresses; the allocator reads and writes its headers in that memory, so that a
  header written over another one changes it.
\<close>

type_synonym u32 = "32 word"

type_synonym memory = "u32 \<Rightarrow> 8 word"

definition memory_zero :: memory where
  "memory_zero = (\<lambda>a. 0)"

definition load32 :: "memory \<Rightarrow> u32 \<Rightarrow> u32" where
  "load32 h a =
     ucast (h a) OR push_bit 8 (ucast (h (a + 1)))
       OR push_bit 16 (ucast (h (a + 2))) OR push_bit 24 (ucast (h (a + 3)))"

definition store32 :: "memory \<Rightarrow> u32 \<Rightarrow> u32 \<Rightarrow> memory" where
  "store32 h a v =
     h(a := ucast v, a + 1 := ucast (drop_bit 8 v),
       a + 2 := ucast (drop_bit 16 v), a + 3 := ucast (drop_bit 24 v))"

text \<open>
  \<^verbatim>\<open>hardware.hpp\<close> is not among the sources. The place and the size of the heap are
  parameters: \<open>heap_begin\<close> stands for
  \<^verbatim>\<open>hw::self_tile_addr(hw::get_parity_dev()) + hw::heap_begin_offset\<close>.
  \<^verbatim>\<open>hw::stable_pointer\<close> is taken to be a 32-bit pointer, which gives the two
  structures the following layout: \<^verbatim>\<open>allocator_global\<close> is the pointer
  \<open>total_list\<close>, 4 bytes; \<^verbatim>\<open>block_header\<close> is 8 bytes, the pointer \<open>next\<close> at
  offset 0 and at offset 4 the word of the two bit-fields, \<open>size\<close> in its bits 0 to 30
  and \<open>in_use\<close> in its bit 31.
\<close>

record hardware =
  heap_begin :: u32
  heap_size :: u32

definition sizeof_block_header :: u32 where
  "sizeof_block_header = 8"

definition sizeof_allocator_global :: u32 where
  "sizeof_allocator_global = 4"

definition min_alloc_size :: u32 where
  "min_alloc_size = 8"

definition alloc_align :: u32 where
  "alloc_align = 4"

text \<open>The word of the two bit-fields.\<close>

definition pack :: "31 word \<Rightarrow> bool \<Rightarrow> u32" where
  "pack s b = ucast s OR push_bit 31 (of_bool b)"

text \<open>
  Reading and writing the fields of the header at the address \<open>this\<close>. Writing a
  bit-field keeps the other bit-field of the word.
\<close>

definition get_next :: "memory \<Rightarrow> u32 \<Rightarrow> u32" where
  "get_next h this = load32 h this"

definition store_next :: "memory \<Rightarrow> u32 \<Rightarrow> u32 \<Rightarrow> memory" where
  "store_next h this p = store32 h this p"

definition load_size :: "memory \<Rightarrow> u32 \<Rightarrow> 31 word" where
  "load_size h this = ucast (load32 h (this + 4))"

definition load_in_use :: "memory \<Rightarrow> u32 \<Rightarrow> bool" where
  "load_in_use h this = bit (load32 h (this + 4)) 31"

definition store_size :: "memory \<Rightarrow> u32 \<Rightarrow> 31 word \<Rightarrow> memory" where
  "store_size h this s = store32 h (this + 4) (pack s (load_in_use h this))"

definition store_in_use :: "memory \<Rightarrow> u32 \<Rightarrow> bool \<Rightarrow> memory" where
  "store_in_use h this b = store32 h (this + 4) (pack (load_size h this) b)"

text \<open>\<^verbatim>\<open>__builtin_memset(p, 0, sizeof(block_header))\<close>.\<close>

definition memset_block_header :: "memory \<Rightarrow> u32 \<Rightarrow> memory" where
  "memset_block_header h p = store32 (store32 h p 0) (p + 4) 0"

definition get_header :: "u32 \<Rightarrow> u32" where
  "get_header ptr = ptr - sizeof_block_header"

definition get_alloc :: "u32 \<Rightarrow> u32" where
  "get_alloc this = this + sizeof_block_header"

definition get_end :: "memory \<Rightarrow> u32 \<Rightarrow> u32" where
  "get_end h this = this + sizeof_block_header + ucast (load_size h this)"

definition is_splitable :: "memory \<Rightarrow> u32 \<Rightarrow> u32 \<Rightarrow> bool" where
  "is_splitable h this new_size =
     (ucast (load_size h this) \<ge> new_size + sizeof_block_header + min_alloc_size)"

text \<open>
  \<^verbatim>\<open>split\<close>, statement by statement. The size of the new block is computed from the
  \<open>size\<close> field of \<open>this\<close> as it is in memory at that moment, after it has been
  overwritten with \<open>new_size\<close>; the saved \<open>old_size\<close> is not used.
\<close>

definition split :: "memory \<Rightarrow> u32 \<Rightarrow> u32 \<Rightarrow> memory" where
  "split h this new_size =
     (let old_next = get_next h this;
          old_size = load_size h this;
          h1 = store_size h this (ucast new_size);
          new_next = get_end h1 this;
          h2 = memset_block_header h1 new_next;
          h3 = store_next h2 this new_next;
          h4 = store_size h3 new_next
                 (ucast ((ucast (load_size h3 this) :: u32) - new_size - sizeof_block_header));
          h5 = store_next h4 new_next old_next
      in h5)"

definition create_block :: "memory \<Rightarrow> u32 \<Rightarrow> u32 \<Rightarrow> u32 \<times> memory" where
  "create_block h p s =
     (let h1 = memset_block_header h p;
          h2 = store_size h1 p (ucast (s - sizeof_block_header))
      in (p, h2))"

text \<open>The field \<open>total_list\<close> of the \<^verbatim>\<open>allocator_global\<close>, which lies at \<open>heap_begin\<close>.\<close>

definition total_list :: "hardware \<Rightarrow> memory \<Rightarrow> u32" where
  "total_list hw h = load32 h (heap_begin hw)"

definition init_allocator :: "hardware \<Rightarrow> memory \<Rightarrow> memory" where
  "init_allocator hw h =
     (case create_block h (heap_begin hw + sizeof_allocator_global) (heap_size hw) of
        (block, h1) \<Rightarrow> store32 h1 (heap_begin hw) block)"

text \<open>
  The loop of \<^verbatim>\<open>try_malloc\<close> from the header \<open>bh\<close> on: the pointer returned (0 is
  the null pointer) and the memory as the call leaves it. The loop need not end: on a
  chain that runs into itself it has no result.
\<close>

partial_function (option) try_malloc_loop :: "u32 \<Rightarrow> u32 \<Rightarrow> memory \<Rightarrow> (u32 \<times> memory) option" where
  "try_malloc_loop sz bh h =
     (if bh = 0 then Some (0, h)
      else if ucast (load_size h bh) \<ge> sz \<and> \<not> load_in_use h bh then
        (let h1 = (if is_splitable h bh sz then split h bh sz else h);
             h2 = store_in_use h1 bh True
         in Some (get_alloc bh, h2))
      else try_malloc_loop sz (get_next h bh) h)"

declare try_malloc_loop.simps [code]

definition try_malloc :: "hardware \<Rightarrow> u32 \<Rightarrow> memory \<Rightarrow> (u32 \<times> memory) option" where
  "try_malloc hw sz h =
     (let sz1 = (sz + (alloc_align - 1)) AND NOT (alloc_align - 1)
      in try_malloc_loop sz1 (total_list hw h) h)"

text \<open>\<^verbatim>\<open>malloc\<close> asserts that \<^verbatim>\<open>try_malloc\<close> has not returned the null pointer.\<close>

definition malloc :: "hardware \<Rightarrow> u32 \<Rightarrow> memory \<Rightarrow> (error + u32 \<times> memory) option" where
  "malloc hw sz h =
     (case try_malloc hw sz h of
        None \<Rightarrow> None
      | Some (ret, h') \<Rightarrow> if ret \<noteq> 0 then Some (Inr (ret, h')) else Some (Inl Assertion_failure))"

text \<open>\<^verbatim>\<open>free\<close> clears the flag of the header that lies just before \<open>p\<close>.\<close>

definition free :: "u32 \<Rightarrow> memory \<Rightarrow> memory" where
  "free p h = store_in_use h (get_header p) False"

text \<open>
  The blocks of the allocator: the headers met from \<open>total_list\<close> on along the
  \<open>next\<close> pointers up to the null pointer, each with its address, its size and its
  flag. A chain that runs into itself has no such list.
\<close>

record block_header =
  addr :: u32
  size' :: "31 word"
  in_use :: bool

partial_function (option) chain :: "memory \<Rightarrow> u32 \<Rightarrow> block_header list option" where
  "chain h bh =
     (if bh = 0 then Some []
      else Option.bind (chain h (get_next h bh))
             (\<lambda>bs. Some (\<lparr>addr = bh, size' = load_size h bh, in_use = load_in_use h bh\<rparr> # bs)))"

declare chain.simps [code]

definition blocks :: "hardware \<Rightarrow> memory \<Rightarrow> block_header list option" where
  "blocks hw h = chain h (total_list hw h)"

text \<open>The pointer that \<open>try_malloc\<close> returns together with the blocks it leaves.\<close>

definition try_malloc_blocks :: "hardware \<Rightarrow> u32 \<Rightarrow> memory \<Rightarrow> (u32 \<times> block_header list option) option" where
  "try_malloc_blocks hw sz h =
     (case try_malloc hw sz h of None \<Rightarrow> None | Some (p, h') \<Rightarrow> Some (p, blocks hw h'))"

text \<open>A sequence of calls on the allocator, and the pointers its allocations return.\<close>

datatype call = Malloc u32 | Free u32

fun calls :: "hardware \<Rightarrow> call list \<Rightarrow> memory \<Rightarrow> (u32 list \<times> memory) option" where
  "calls hw [] h = Some ([], h)"
| "calls hw (Malloc n # cs) h =
     (case try_malloc hw n h of
        None \<Rightarrow> None
      | Some (p, h') \<Rightarrow>
          (case calls hw cs h' of None \<Rightarrow> None | Some (ps, h'') \<Rightarrow> Some (p # ps, h'')))"
| "calls hw (Free p # cs) h = calls hw cs (free p h)"

text \<open>
  The blocks of a chain tile the address range from \<open>a\<close> to \<open>e\<close>: each block, header
  and payload, starts where its predecessor ends, the first one at \<open>a\<close>, and the last
  one ends at \<open>e\<close>.
\<close>

fun tiles :: "nat \<Rightarrow> nat \<Rightarrow> block_header list \<Rightarrow> bool" where
  "tiles a e [] = (a = e)"
| "tiles a e (bh # rest) =
     (unat (addr bh) = a
      \<and> tiles (a + unat sizeof_block_header + unat (size' bh)) e rest)"

text \<open>The arena: \<open>heap_size\<close> bytes behind the allocator's global record.\<close>

definition arena_begin :: "hardware \<Rightarrow> nat" where
  "arena_begin hw = unat (heap_begin hw + sizeof_allocator_global)"

definition tiles_arena :: "hardware \<Rightarrow> memory \<Rightarrow> bool" where
  "tiles_arena hw h =
     (case blocks hw h of
        None \<Rightarrow> False
      | Some bs \<Rightarrow> tiles (arena_begin hw) (arena_begin hw + unat (heap_size hw)) bs)"

text \<open>
  An example of the hardware constants: a heap of 4096 bytes at address \<open>0x6000\<close>.
\<close>

definition hardware_example :: hardware where
  "hardware_example = \<lparr>heap_begin = 0x6000, heap_size = 0x1000\<rparr>"

text \<open>Rounding a natural number up to the next multiple of 4.\<close>

definition round_up_4 :: "nat \<Rightarrow> nat" where
  "round_up_4 n = (n + 3) div 4 * 4"

text \<open>Two 32-bit accesses, at \<open>a\<close> and at \<open>b\<close>, that have no byte in common.\<close>

definition apart :: "u32 \<Rightarrow> u32 \<Rightarrow> bool" where
  "apart a b = (4 \<le> unat (b - a) \<and> unat (b - a) \<le> 2 ^ 32 - 4)"

text \<open>The words of the memory at a list of addresses.\<close>

definition words :: "memory \<Rightarrow> u32 list \<Rightarrow> u32 list" where
  "words h as = map (load32 h) as"

text \<open>
  The words that the scenario of claim C7 below reads and writes: \<open>total_list\<close>, the
  two words of every header that the scenario creates (the headers at 24744 and at
  24748 have a word in common) and the two words at the address \<open>0x7FFFFFF8\<close>.
\<close>

definition tracked :: "u32 list" where
  "tracked =
     [24576, 24580, 24584, 24608, 24612, 24636, 24640, 24716, 24720, 24744, 24748, 24752,
      24844, 24848, 2147483640, 2147483644]"

section \<open>Properties of the tile infrastructure\<close>

lemma odd_row_iff: "((Y::int) AND 1 \<noteq> 0) = odd Y"
  by (simp add: and_one_eq mod_2_eq_odd)

text \<open>
  Claim C8. Calling \<open>single_task\<close> on a tile whose previously submitted work has not
  been joined throws the logic error at once and leaves the tile, with the work it is
  running, as it was; in particular a second \<open>single_task\<close> right after a successful one
  fails this way.
\<close>

theorem single_task_already_running:
  "(valid (future_work ti) \<longrightarrow>
      single_task g ti = (Some (Logic_error ''Something is already running on this tile!''), ti))
   \<and> (fst (single_task f ti) = None \<longrightarrow>
      single_task g (snd (single_task f ti)) =
        (Some (Logic_error ''Something is already running on this tile!''), snd (single_task f ti))
      \<and> future_work (snd (single_task f ti)) = Some f)"
  by (simp add: single_task_def valid_def)

theorem single_task_already_running_witness:
  "fst (single_task Completes (tile_infrastructure_new 0 0)) = None
   \<and> valid (future_work (snd (single_task Completes (tile_infrastructure_new 0 0))))
   \<and> single_task Never_completes (snd (single_task Completes (tile_infrastructure_new 0 0))) =
       (Some (Logic_error ''Something is already running on this tile!''),
        snd (single_task Completes (tile_infrastructure_new 0 0)))
   \<and> future_work (snd (single_task Completes (tile_infrastructure_new 0 0))) = Some Completes"
  using single_task_already_running [of "tile_infrastructure_new 0 0" Never_completes Completes]
  by (simp add: single_task_def valid_def tile_infrastructure_new_def)

text \<open>
  Claim C10. On a tile with no pending work, \<open>wait\<close> returns at once, raises nothing
  and leaves the tile as it was. A tile has no pending work when it has just been
  constructed and when a previous \<open>wait\<close> has returned or rethrown.
\<close>

theorem wait_without_pending_work:
  "(\<not> valid (future_work ti) \<longrightarrow> wait ti = Returned ti)
   \<and> wait (tile_infrastructure_new x y) = Returned (tile_infrastructure_new x y)
   \<and> (wait ti = Returned ti' \<longrightarrow> wait ti' = Returned ti')
   \<and> (wait ti = Rethrown e ti' \<longrightarrow> wait ti' = Returned ti')"
  by (auto simp: wait_def valid_def tile_infrastructure_new_def
           split: option.splits work.splits)

theorem wait_without_pending_work_witness:
  "\<not> valid (future_work (tile_infrastructure_new 1 2))
   \<and> wait (tile_infrastructure_new 1 2) = Returned (tile_infrastructure_new 1 2)
   \<and> wait (snd (single_task Completes (tile_infrastructure_new 1 2))) =
       Returned (tile_infrastructure_new 1 2)
   \<and> wait (snd (single_task (Raises ''e'') (tile_infrastructure_new 1 2))) =
       Rethrown ''e'' (tile_infrastructure_new 1 2)"
  using wait_without_pending_work [of "tile_infrastructure_new 1 2" 1 2 "tile_infrastructure_new 1 2" "''e''"]
        wait_without_pending_work [of "snd (single_task Completes (tile_infrastructure_new 1 2))" 1 2
                                      "tile_infrastructure_new 1 2" "''e''"]
        wait_without_pending_work [of "snd (single_task (Raises ''e'') (tile_infrastructure_new 1 2))" 1 2
                                      "tile_infrastructure_new 1 2" "''e''"]
  by (simp add: wait_def valid_def single_task_def tile_infrastructure_new_def)

section \<open>Properties of the lock unit\<close>

text \<open>
  Claim C9, as stated, at the index 16. The call fails, but by the assertion of \<open>lock\<close>:
  the process is aborted, and no condition is reported to the caller.
\<close>

theorem lock_out_of_range_counterexample:
  "lock lock_unit_new 16 = Inl Assertion_failure \<and> \<not> reported_to_caller Assertion_failure"
  by (simp add: lock_def lock_number_def)

text \<open>
  Claim C9, amended. In a build with assertions, asking a lock unit for the lock \<open>i\<close>
  with \<open>i\<close> negative or at least the bank size 16 fails the assertion of \<open>lock\<close> at the
  call, which aborts the process instead of reporting a condition to the caller; for
  \<open>0 \<le> i < 16\<close> the call returns the \<open>i\<close>-th locking device, and a lock unit has these
  16 devices.
\<close>

theorem lock_index_in_range:
  "lock_number = 16
   \<and> length (locks lock_unit_new) = 16
   \<and> (i < 0 \<or> 16 \<le> i \<longrightarrow>
        lock lu i = Inl Assertion_failure \<and> \<not> reported_to_caller Assertion_failure)
   \<and> (0 \<le> i \<and> i < 16 \<longrightarrow> lock lu i = Inr (locks lu ! nat i))
   \<and> (0 \<le> i \<and> i < 16 \<longrightarrow> lock lock_unit_new i = Inr locking_device_new)"
proof -
  have "0 \<le> i \<and> i < 16 \<longrightarrow> replicate 16 locking_device_new ! nat i = locking_device_new"
    by (auto simp: nat_less_iff)
  then show ?thesis
    by (simp add: lock_def lock_number_def lock_unit_new_def)
qed

theorem lock_index_in_range_witness:
  "lock lock_unit_new 17 = Inl Assertion_failure
   \<and> lock lock_unit_new (- 1) = Inl Assertion_failure
   \<and> \<not> reported_to_caller Assertion_failure
   \<and> lock lock_unit_new 15 = Inr locking_device_new
   \<and> lock lock_unit_new 0 = Inr locking_device_new"
proof -
  have "(16::int) \<le> 17" and "(- 1::int) < 0"
    and "(0::int) \<le> 15 \<and> (15::int) < 16" and "(0::int) \<le> 0 \<and> (0::int) < 16"
    by simp_all
  with lock_index_in_range [of 17 lock_unit_new] lock_index_in_range [of "- 1" lock_unit_new]
       lock_index_in_range [of 15 lock_unit_new] lock_index_in_range [of 0 lock_unit_new]
  show ?thesis by blast
qed

section \<open>Properties of the fibers on a locking device\<close>

text \<open>
  Whatever the fibers do, a fiber inside \<^verbatim>\<open>acquire_with_value(e)\<close> stays inside the
  call until it returns, and it returns only by its own test of the predicate, at a
  moment when the value equals \<open>e\<close>.
\<close>

lemma acquire_returns_on_expectation_only:
  assumes "step t s = Some s'" and "acquiring e (at s u)" and "at s' u = Call_returned"
  shows "t = u \<and> at s u = Acquire_test e \<and> value' (device s) = e \<and> value' (device s') = e"
proof (cases "t = u")
  case True
  with assms show ?thesis
    by (cases "at s u") (auto simp: step_def Let_def split: if_splits list.splits)
next
  case False
  with assms show ?thesis
    by (cases "at s t"; cases "at s u")
       (auto simp: step_def Let_def notified_def split: if_splits list.splits)
qed

lemma acquire_stays_in_call:
  assumes "step t s = Some s'" and "acquiring e (at s u)"
  shows "acquiring e (at s' u) \<or> at s' u = Call_returned"
proof (cases "t = u")
  case True
  with assms show ?thesis
    by (cases "at s u") (auto simp: step_def Let_def split: if_splits list.splits)
next
  case False
  with assms show ?thesis
    by (cases "at s t"; cases "at s u")
       (auto simp: step_def Let_def notified_def split: if_splits list.splits)
qed

text \<open>
  Claim C2. On a locking device whose value is false, whose mutex is free and on which
  nobody waits, a fiber \<open>a\<close> that calls \<^verbatim>\<open>acquire_with_value(true)\<close> before any
  release runs into the condition variable and blocks there: it has not returned and
  cannot move. Once another fiber \<open>b\<close> has run \<^verbatim>\<open>release_with_value(true)\<close>, the
  value is true and \<open>a\<close> has been notified; \<open>a\<close> then resumes, finds the value equal
  to its expectation and returns, the value still being true.
\<close>

theorem acquire_blocks_until_release:
  assumes ab: "a \<noteq> b"
    and v: "\<not> value' (device s)" and m: "m (device s) = None" and c: "cv (device s) = []"
    and a: "at s a = Acquire_entry True"
    and b: "at s b = Release_entry True"
  shows "\<exists>s2 s5 s7.
           run [a, a] s = Some s2
         \<and> at s2 a = Acquire_suspended True \<and> step a s2 = None \<and> \<not> value' (device s2)
         \<and> run [b, b, b] s2 = Some s5
         \<and> at s5 b = Call_returned \<and> at s5 a = Acquire_notified True \<and> value' (device s5)
         \<and> run [a, a] s5 = Some s7
         \<and> at s7 a = Call_returned \<and> value' (device s7)"
proof -
  define s1 where "s1 = s\<lparr>device := (device s)\<lparr>m := Some a\<rparr>, at := (at s)(a := Acquire_test True)\<rparr>"
  define s2 where "s2 = s1\<lparr>device := (device s1)\<lparr>m := None, cv := cv (device s1) @ [a]\<rparr>,
                        at := (at s1)(a := Acquire_suspended True)\<rparr>"
  define s3 where "s3 = s2\<lparr>device := (device s2)\<lparr>m := Some b\<rparr>, at := (at s2)(b := Release_store True)\<rparr>"
  define s4 where "s4 = s3\<lparr>device := (device s3)\<lparr>value' := True, m := None\<rparr>,
                        at := (at s3)(b := Release_notify)\<rparr>"
  define s5 where "s5 = s4\<lparr>device := (device s4)\<lparr>cv := []\<rparr>,
                        at := (at s4)(a := Acquire_notified True, b := Call_returned)\<rparr>"
  define s6 where "s6 = s5\<lparr>device := (device s5)\<lparr>m := Some a\<rparr>, at := (at s5)(a := Acquire_test True)\<rparr>"
  define s7 where "s7 = s6\<lparr>device := (device s6)\<lparr>m := None\<rparr>, at := (at s6)(a := Call_returned)\<rparr>"
  have step1: "step a s = Some s1"
    using m a by (simp add: step_def s1_def)
  have step2: "step a s1 = Some s2"
    using v by (simp add: step_def s1_def s2_def)
  have blocked: "step a s2 = None" "at s2 a = Acquire_suspended True" "\<not> value' (device s2)"
    using v by (simp_all add: step_def s1_def s2_def)
  have step3: "step b s2 = Some s3"
    using ab b by (simp add: step_def s1_def s2_def s3_def)
  have step4: "step b s3 = Some s4"
    using ab by (simp add: step_def s3_def s4_def)
  have step5: "step b s4 = Some s5"
    using ab c by (simp add: step_def s1_def s2_def s3_def s4_def s5_def notified_def)
  have released: "at s5 b = Call_returned" "at s5 a = Acquire_notified True" "value' (device s5)"
    using ab by (simp_all add: s5_def s4_def)
  have step6: "step a s5 = Some s6"
    using ab by (simp add: step_def s4_def s5_def s6_def)
  have step7: "step a s6 = Some s7"
    by (simp add: step_def s4_def s5_def s6_def s7_def)
  have resumed: "at s7 a = Call_returned" "value' (device s7)"
    by (simp_all add: s4_def s5_def s6_def s7_def)
  have "run [a, a] s = Some s2" "run [b, b, b] s2 = Some s5" "run [a, a] s5 = Some s7"
    by (simp_all add: step1 step2 step3 step4 step5 step6 step7)
  with blocked released resumed show ?thesis
    by blast
qed

theorem acquire_blocks_until_release_witness:
  "\<exists>s2 s5 s7.
     run [0, 0] \<lparr>device = locking_device_new,
                 at = (\<lambda>t. Call_returned)(0 := Acquire_entry True, 1 := Release_entry True)\<rparr>
       = Some s2
     \<and> at s2 0 = Acquire_suspended True \<and> step 0 s2 = None \<and> \<not> value' (device s2)
     \<and> run [1, 1, 1] s2 = Some s5
     \<and> at s5 1 = Call_returned \<and> at s5 0 = Acquire_notified True \<and> value' (device s5)
     \<and> run [0, 0] s5 = Some s7
     \<and> at s7 0 = Call_returned \<and> value' (device s7)"
proof -
  let ?s = "\<lparr>device = locking_device_new,
             at = (\<lambda>t. Call_returned)(0 := Acquire_entry True, 1 := Release_entry True)\<rparr>"
  have "(0::nat) \<noteq> 1" and "\<not> value' (device ?s)" and "m (device ?s) = None"
    and "cv (device ?s) = []" and "at ?s 0 = Acquire_entry True"
    and "at ?s 1 = Release_entry True"
    by (simp_all add: locking_device_new_def)
  then show ?thesis
    by (rule acquire_blocks_until_release)
qed

section \<open>Properties of the tile\<close>

text \<open>
  Claim C3. The memory module that the argument-less \<open>mem\<close> returns is fixed by the
  parity of the row: on an even row it is what \<open>mem_east\<close> returns, on an odd row what
  \<open>mem_west\<close> returns.
\<close>

theorem mem_by_row_parity:
  "(even Y \<longrightarrow> mem g X Y = mem_east g X Y) \<and> (odd Y \<longrightarrow> mem g X Y = mem_west g X Y)"
  by (simp add: mem_def odd_row_iff)

theorem mem_by_row_parity_witness:
  "even (0::int) \<and> odd (1::int)
   \<and> mem (geography_of (layout_size 2 3)) 1 0 = mem_east (geography_of (layout_size 2 3)) 1 0
   \<and> mem_east (geography_of (layout_size 2 3)) 1 0 = Inr 1
   \<and> mem (geography_of (layout_size 2 3)) 1 1 = mem_west (geography_of (layout_size 2 3)) 1 1
   \<and> mem_west (geography_of (layout_size 2 3)) 1 1 = Inr 3"
  using mem_by_row_parity [of 0 "geography_of (layout_size 2 3)" 1]
        mem_by_row_parity [of 1 "geography_of (layout_size 2 3)" 1]
  by (simp add: mem_east_def mem_west_def is_memory_module_east_def is_memory_module_west_def
        is_memory_module_def memory_module_linear_id_def geography_of_def layout_size_def)

text \<open>
  Claim C1, as stated, at the middle tile of an even row of three tiles. The tile first
  waits for the token on the memory module on its East (module 1, its native one) and
  hands the token on through the memory module on its West (module 0): the token
  travels from East to West, not from West to East.
\<close>

theorem horizontal_barrier_even_row_counterexample:
  "even (0::int)
   \<and> mem_west (geography_of (layout_size 3 1)) 1 0 = Inr 0
   \<and> mem_east (geography_of (layout_size 3 1)) 1 0 = Inr 1
   \<and> horizontal_barrier (geography_of (layout_size 3 1)) 1 0 14 =
       Inr [Acquire_with_value 1 14 True,
            Acquire_with_value 0 14 False, Release_with_value 0 14 True,
            Acquire_with_value 0 14 False,
            Release_with_value 1 14 False]
   \<and> waits_on [Acquire_with_value 1 14 True,
            Acquire_with_value 0 14 False, Release_with_value 0 14 True,
            Acquire_with_value 0 14 False,
            Release_with_value 1 14 False] = [1]
   \<and> drives [Acquire_with_value 1 14 True,
            Acquire_with_value 0 14 False, Release_with_value 0 14 True,
            Acquire_with_value 0 14 False,
            Release_with_value 1 14 False] = [0]"
  by (simp add: horizontal_barrier_def mem_def mem_east_def mem_west_def
        is_memory_module_east_def is_memory_module_west_def is_memory_module_def
        memory_module_linear_id_def is_east_column_def is_west_column_def
        acquire_with_value_on_def release_with_value_on_def lock_number_def
        geography_of_def layout_size_def)

text \<open>
  Claim C1, amended. The direction is chosen by the parity of the row the other way
  round. On an odd row the token travels from West to East and back: the tile waits for
  it on its Western memory module (unless it is in the Western column), hands it on
  through its Eastern memory module (if there is one), waits there for the
  acknowledgement and acknowledges on the West. On an even row the token travels from
  East to West and back in the same manner.
\<close>

theorem horizontal_barrier_direction:
  assumes "horizontal_barrier g X Y l = Inr cs"
  shows "(odd Y \<longrightarrow>
            cs = (if is_west_column g X then []
                  else [Acquire_with_value (memory_module_linear_id g X Y (- 1) 0) l True]) @
                 (if is_memory_module_east g X Y
                  then [Acquire_with_value (memory_module_linear_id g X Y 1 0) l False,
                        Release_with_value (memory_module_linear_id g X Y 1 0) l True,
                        Acquire_with_value (memory_module_linear_id g X Y 1 0) l False]
                  else []) @
                 (if is_west_column g X then []
                  else [Release_with_value (memory_module_linear_id g X Y (- 1) 0) l False])
            \<and> waits_on cs = (if is_west_column g X then []
                             else [memory_module_linear_id g X Y (- 1) 0])
            \<and> drives cs = (if is_memory_module_east g X Y
                           then [memory_module_linear_id g X Y 1 0] else []))
       \<and> (even Y \<longrightarrow>
            cs = (if is_east_column g X then []
                  else [Acquire_with_value (memory_module_linear_id g X Y 1 0) l True]) @
                 (if is_memory_module_west g X Y
                  then [Acquire_with_value (memory_module_linear_id g X Y (- 1) 0) l False,
                        Release_with_value (memory_module_linear_id g X Y (- 1) 0) l True,
                        Acquire_with_value (memory_module_linear_id g X Y (- 1) 0) l False]
                  else []) @
                 (if is_east_column g X then []
                  else [Release_with_value (memory_module_linear_id g X Y 1 0) l False])
            \<and> waits_on cs = (if is_east_column g X then []
                             else [memory_module_linear_id g X Y 1 0])
            \<and> drives cs = (if is_memory_module_west g X Y
                           then [memory_module_linear_id g X Y (- 1) 0] else []))"
proof (cases "odd Y")
  case True
  show ?thesis
  proof (cases "0 \<le> l \<and> l < lock_number")
    case inr: True
    from assms \<open>odd Y\<close> inr show ?thesis
      by (cases "is_west_column g X"; cases "is_memory_module_east g X Y";
          cases "is_memory_module_west g X Y")
         (simp_all add: horizontal_barrier_def odd_row_iff mem_def mem_west_def mem_east_def
            acquire_with_value_on_def release_with_value_on_def, auto)
  next
    case oor: False
    from assms \<open>odd Y\<close> oor show ?thesis
      by (cases "is_west_column g X"; cases "is_memory_module_east g X Y";
          cases "is_memory_module_west g X Y")
         (simp_all add: horizontal_barrier_def odd_row_iff mem_def mem_west_def mem_east_def
            acquire_with_value_on_def release_with_value_on_def)
  qed
next
  case False
  show ?thesis
  proof (cases "0 \<le> l \<and> l < lock_number")
    case inr: True
    from assms \<open>\<not> odd Y\<close> inr show ?thesis
      by (cases "is_east_column g X"; cases "is_memory_module_east g X Y";
          cases "is_memory_module_west g X Y")
         (simp_all add: horizontal_barrier_def odd_row_iff mem_def mem_west_def mem_east_def
            acquire_with_value_on_def release_with_value_on_def, auto)
  next
    case oor: False
    from assms \<open>\<not> odd Y\<close> oor show ?thesis
      by (cases "is_east_column g X"; cases "is_memory_module_east g X Y";
          cases "is_memory_module_west g X Y")
         (simp_all add: horizontal_barrier_def odd_row_iff mem_def mem_west_def mem_east_def
            acquire_with_value_on_def release_with_value_on_def)
  qed
qed


theorem horizontal_barrier_direction_witness:
  "horizontal_barrier (geography_of (layout_size 3 2)) 1 1 14 =
       Inr [Acquire_with_value 4 14 True,
            Acquire_with_value 5 14 False, Release_with_value 5 14 True,
            Acquire_with_value 5 14 False,
            Release_with_value 4 14 False]
   \<and> odd (1::int)
   \<and> waits_on [Acquire_with_value 4 14 True,
            Acquire_with_value 5 14 False, Release_with_value 5 14 True,
            Acquire_with_value 5 14 False,
            Release_with_value 4 14 False] = [4]
   \<and> drives [Acquire_with_value 4 14 True,
            Acquire_with_value 5 14 False, Release_with_value 5 14 True,
            Acquire_with_value 5 14 False,
            Release_with_value 4 14 False] = [5]"
proof -
  let ?g = "geography_of (layout_size 3 2)"
  have run: "horizontal_barrier ?g 1 1 14 =
       Inr [Acquire_with_value 4 14 True,
            Acquire_with_value 5 14 False, Release_with_value 5 14 True,
            Acquire_with_value 5 14 False,
            Release_with_value 4 14 False]"
    by (simp add: horizontal_barrier_def mem_def mem_east_def mem_west_def
        is_memory_module_east_def is_memory_module_west_def is_memory_module_def
        memory_module_linear_id_def is_east_column_def is_west_column_def
        acquire_with_value_on_def release_with_value_on_def lock_number_def
        geography_of_def layout_size_def)
  have w: "\<not> is_west_column ?g 1"
    by (simp add: is_west_column_def geography_of_def)
  have e: "is_memory_module_east ?g 1 1"
    by (simp add: is_memory_module_east_def is_memory_module_def geography_of_def layout_size_def)
  have iw: "memory_module_linear_id ?g 1 1 (- 1) 0 = 4"
    by (simp add: memory_module_linear_id_def geography_of_def layout_size_def)
  have ie: "memory_module_linear_id ?g 1 1 1 0 = 5"
    by (simp add: memory_module_linear_id_def geography_of_def layout_size_def)
  have o: "odd (1::int)" by simp
  from horizontal_barrier_direction [OF run] o
  have "waits_on [Acquire_with_value 4 14 True,
            Acquire_with_value 5 14 False, Release_with_value 5 14 True,
            Acquire_with_value 5 14 False,
            Release_with_value 4 14 False] =
          (if is_west_column ?g 1 then [] else [memory_module_linear_id ?g 1 1 (- 1) 0])"
    and "drives [Acquire_with_value 4 14 True,
            Acquire_with_value 5 14 False, Release_with_value 5 14 True,
            Acquire_with_value 5 14 False,
            Release_with_value 4 14 False] =
          (if is_memory_module_east ?g 1 1 then [memory_module_linear_id ?g 1 1 1 0] else [])"
    by blast+
  with w e iw ie have "waits_on [Acquire_with_value 4 14 True,
            Acquire_with_value 5 14 False, Release_with_value 5 14 True,
            Acquire_with_value 5 14 False,
            Release_with_value 4 14 False] = [4]"
    and "drives [Acquire_with_value 4 14 True,
            Acquire_with_value 5 14 False, Release_with_value 5 14 True,
            Acquire_with_value 5 14 False,
            Release_with_value 4 14 False] = [5]"
    by (simp_all only: if_True if_False)
  with run o show ?thesis by blast
qed

section \<open>Properties of the device allocator\<close>

subsection \<open>Memory and bit-fields\<close>

lemma bytes_join:
  "ucast (ucast v :: 8 word) OR push_bit 8 (ucast (ucast (drop_bit 8 v) :: 8 word))
     OR push_bit 16 (ucast (ucast (drop_bit 16 v) :: 8 word))
     OR push_bit 24 (ucast (ucast (drop_bit 24 v) :: 8 word)) = (v :: 32 word)"
  apply (rule bit_eqI)
  apply (auto simp: bit_simps)
  using not_gr_zero by fastforce

lemma load32_store32_same: "load32 (store32 h a v) a = v"
  by (simp add: load32_def store32_def bytes_join)

lemma far_from_zero:
  assumes "4 \<le> unat (d :: 32 word)" and "unat d \<le> 2 ^ 32 - 4"
  shows "d \<noteq> 0" "d \<noteq> 1" "d \<noteq> 2" "d \<noteq> 3"
    "d + 1 \<noteq> 0" "d + 2 \<noteq> 0" "d + 3 \<noteq> 0" "1 + d \<noteq> 0" "2 + d \<noteq> 0" "3 + d \<noteq> 0"
  using assms by (auto simp: unat_plus_if_size word_size word_unat_eq_iff)

lemma load32_store32_apart:
  assumes "apart a b"
  shows "load32 (store32 h a v) b = load32 h b"
proof -
  define d where "d = b - a"
  have b: "b = a + d"
    by (simp add: d_def)
  have d: "4 \<le> unat d" "unat d \<le> 2 ^ 32 - 4"
    using assms by (simp_all add: apart_def d_def)
  show ?thesis
    unfolding b load32_def store32_def
    by (simp add: far_from_zero [OF d])
qed

lemma load32_memory_zero: "load32 memory_zero a = 0"
  by (simp add: load32_def memory_zero_def)

lemma size_pack: "(ucast (pack s b) :: 31 word) = s"
  apply (rule bit_eqI)
  apply (auto simp: pack_def bit_simps)
  done

lemma in_use_pack: "bit (pack s b) 31 = b"
  by (auto simp: pack_def bit_simps dest: bit_imp_le_length)

lemmas alloc_eval =
  load32_store32_same load32_store32_apart load32_memory_zero size_pack in_use_pack apart_def
  get_next_def store_next_def load_size_def load_in_use_def store_size_def store_in_use_def
  memset_block_header_def get_header_def get_alloc_def get_end_def is_splitable_def split_def
  create_block_def total_list_def init_allocator_def try_malloc_def free_def blocks_def
  try_malloc_blocks_def sizeof_block_header_def sizeof_allocator_global_def min_alloc_size_def
  alloc_align_def hardware_example_def Let_def try_malloc_loop.simps chain.simps

subsection \<open>Word arithmetic and the two loops\<close>

lemma apart_nat:
  assumes "unat a + 4 \<le> unat b \<and> unat b + 4 \<le> 2 ^ 32 \<or> unat b + 4 \<le> unat a \<and> unat a + 4 \<le> 2 ^ 32"
  shows "apart a b"
  using assms by (auto simp: apart_def unat_sub_if_size word_size)

lemma and_not_3: "unat ((w::32 word) AND - 4) = unat w div 4 * 4"
proof -
  have n: "(- 4 :: 32 word) = NOT 3"
    by simp
  have a: "w AND NOT 3 = w - (w AND 3)"
    by (metis (no_types, lifting) and_zero_eq bit.conj_disj_distrib
    bit.de_Morgan_conj bit_and_iff disjunctive_diff word_and_not
    word_bitwise_m1_simps(2))
  have b: "w AND 3 = take_bit 2 w"
    by (simp add: take_bit_eq_mask mask_eq_exp_minus_1)
  have c: "unat (take_bit 2 w) = unat w mod 4"
    by (simp add: take_bit_eq_mod unat_mod)
  have d: "take_bit 2 w \<le> w"
    by (simp add: word_le_nat_alt c)
  have "unat (w - take_bit 2 w) = unat w - unat (take_bit 2 w)"
    using d by (rule unat_sub)
  with a b c show ?thesis
    by (simp only: n minus_mod_eq_div_mult)
qed

lemma round_sz:
  assumes "unat (sz :: 32 word) \<le> 2 ^ 32 - 4"
  shows "unat ((sz + (alloc_align - 1)) AND NOT (alloc_align - 1)) = round_up_4 (unat sz)"
proof -
  have "unat sz + unat (3 :: 32 word) < 2 ^ LENGTH(32)"
    using assms by simp
  then have "unat (sz + 3) = unat sz + unat (3 :: 32 word)"
    by (simp only: unat_add_lem)
  then show ?thesis
    by (simp add: alloc_align_def and_not_3 round_up_4_def)
qed

lemma unat_size_bound: "unat (w :: 31 word) < 2 ^ 31"
  using unsigned_less [of w] by simp

lemma unat_ucast_up: "unat (ucast (w :: 31 word) :: 32 word) = unat w"
proof -
  have "unat w < 2 ^ 32"
    using unat_size_bound [of w] by simp
  then show ?thesis
    by (simp add: unsigned_ucast_eq take_bit_nat_eq_self)
qed

lemma unat_ucast_down: "unat (ucast (r :: 32 word) :: 31 word) = unat r mod 2 ^ 31"
  by (simp add: unsigned_ucast_eq take_bit_eq_mod)

lemma fits_nat: "((r :: 32 word) \<le> ucast (s :: 31 word)) = (unat r \<le> unat s)"
  by (simp add: word_le_nat_alt unat_ucast_up)

lemma ucast_of_nat:
  assumes "unat (r :: 32 word) = n"
  shows "(ucast r :: 31 word) = word_of_nat n"
proof -
  have "(ucast r :: 31 word) = word_of_nat (unat r)"
    by simp
  then show ?thesis
    by (simp only: assms)
qed

lemma ucast_ucast_small:
  assumes "unat (r :: 32 word) < 2 ^ 31"
  shows "(ucast (ucast r :: 31 word) :: 32 word) = r"
proof -
  have "unat (ucast (ucast r :: 31 word) :: 32 word) = unat r"
    using assms by (simp add: unat_ucast_up unat_ucast_down)
  then show ?thesis
    by (simp add: word_unat_eq_iff)
qed

lemma try_malloc_loop_null: "try_malloc_loop sz 0 h = Some (0, h)"
  by (subst try_malloc_loop.simps) simp

lemma try_malloc_loop_fit:
  assumes "bh \<noteq> 0" and "sz \<le> ucast (load_size h bh)" and "\<not> load_in_use h bh"
  shows "try_malloc_loop sz bh h =
     Some (get_alloc bh,
           store_in_use (if is_splitable h bh sz then split h bh sz else h) bh True)"
  using assms by (subst try_malloc_loop.simps) (simp add: Let_def)

lemma try_malloc_loop_next:
  assumes "bh \<noteq> 0" and "\<not> (sz \<le> ucast (load_size h bh) \<and> \<not> load_in_use h bh)"
  shows "try_malloc_loop sz bh h = try_malloc_loop sz (get_next h bh) h"
  using assms by (subst try_malloc_loop.simps) auto

lemma chain_null: "chain h 0 = Some []"
  by (subst chain.simps) simp

lemma chain_step:
  assumes "bh \<noteq> 0"
  shows "chain h bh =
     Option.bind (chain h (get_next h bh))
       (\<lambda>bs. Some (\<lparr>addr = bh, size' = load_size h bh, in_use = load_in_use h bh\<rparr> # bs))"
  using assms by (subst chain.simps) simp

subsection \<open>The first allocation on a fresh arena\<close>

text \<open>
  Claim C4, amended. Take an arena of \<open>S\<close> bytes that lies, with the allocator's global
  record in front of it, in the address space without wrapping around, \<open>S\<close> minus a
  header being below \<open>2 ^ 31\<close>. On the freshly initialised arena, whatever the memory
  held before, a request \<open>k\<close> whose size rounded up to a multiple of 4, plus two
  headers, plus the minimum allocation size 8 is at most \<open>S\<close> returns the address
  behind the first header and leaves exactly two blocks: a block in use at the start of
  the arena, whose size is \<open>k\<close> rounded up to a multiple of 4, followed by a free
  block that starts right behind the payload of the first one.
\<close>

theorem alloc_fresh_arena_split:
  assumes k: "round_up_4 (unat k) + 2 * unat sizeof_block_header + 8 \<le> unat (heap_size hw)"
    and s: "unat (heap_size hw) - unat sizeof_block_header < 2 ^ 31"
    and w: "unat (heap_begin hw) + unat sizeof_allocator_global + unat (heap_size hw) \<le> 2 ^ 32"
  shows "\<exists>nb. try_malloc_blocks hw k (init_allocator hw h) =
           Some (heap_begin hw + sizeof_allocator_global + sizeof_block_header,
                 Some [\<lparr>addr = heap_begin hw + sizeof_allocator_global,
                         size' = word_of_nat (round_up_4 (unat k)), in_use = True\<rparr>,
                       nb])
         \<and> unat (word_of_nat (round_up_4 (unat k)) :: 31 word) = round_up_4 (unat k)
         \<and> \<not> in_use nb
         \<and> addr nb = heap_begin hw + sizeof_allocator_global + sizeof_block_header
                      + word_of_nat (round_up_4 (unat k))"
proof -
  define hb where "hb = heap_begin hw"
  define S where "S = heap_size hw"
  define R where "R = round_up_4 (unat k)"
  define r where "r = (k + (alloc_align - 1)) AND NOT (alloc_align - 1)"
  define b where "b = hb + 4"
  define nn where "nn = b + 8 + r"
  have k': "R + 24 \<le> unat S" and s': "unat S - 8 < 2 ^ 31" and w': "unat hb + 4 + unat S \<le> 2 ^ 32"
    using k s w
    by (simp_all add: R_def S_def hb_def sizeof_block_header_def sizeof_allocator_global_def)
  have "unat k \<le> R"
    by (simp add: R_def round_up_4_def)
  then have "unat k \<le> 2 ^ 32 - 4"
    using k' s' by simp
  then have r: "unat r = R"
    unfolding r_def R_def by (rule round_sz)
  have Rb: "R < 2 ^ 31"
    using k' s' by simp
  have ub: "unat b = unat hb + 4"
    unfolding b_def using w' k' by (simp add: unat_plus_if_size word_size)
  have ub4: "unat (b + 4) = unat hb + 8"
    using w' k' ub by (simp add: unat_plus_if_size word_size)
  have unn: "unat nn = unat hb + 12 + R"
    unfolding nn_def using w' k' ub r by (simp add: unat_plus_if_size word_size)
  have unn4: "unat (nn + 4) = unat hb + 16 + R"
    using w' k' unn by (simp add: unat_plus_if_size word_size)
  have b0: "b \<noteq> 0" and nn0: "nn \<noteq> 0"
    using ub unn by (auto simp: word_unat_eq_iff)
  have ap: "apart hb b" "apart hb (b + 4)" "apart hb nn" "apart hb (nn + 4)"
    "apart b hb" "apart b (b + 4)" "apart b nn" "apart b (nn + 4)"
    "apart (b + 4) hb" "apart (b + 4) b" "apart (b + 4) nn" "apart (b + 4) (nn + 4)"
    "apart nn hb" "apart nn b" "apart nn (b + 4)" "apart nn (nn + 4)"
    "apart (nn + 4) hb" "apart (nn + 4) b" "apart (nn + 4) (b + 4)" "apart (nn + 4) nn"
    using w' k' by (auto intro!: apart_nat simp: ub ub4 unn unn4)
  note ls = load32_store32_same ap [THEN load32_store32_apart]
  define h0 where "h0 = init_allocator hw h"
  have h0: "load32 h0 hb = b" "load32 h0 b = 0" "load32 h0 (b + 4) = pack (ucast (S - 8)) False"
    by (simp_all add: h0_def init_allocator_def create_block_def memset_block_header_def
          store_size_def load_in_use_def sizeof_block_header_def sizeof_allocator_global_def
          hb_def [symmetric] S_def [symmetric] b_def [symmetric] ls)
  have "unat (S - 8) = unat S - 8"
    using k' by (simp add: unat_sub_if_size)
  then have sz0: "unat (load_size h0 b) = unat S - 8"
    using s' by (simp add: load_size_def h0 size_pack unat_ucast_down)
  have fit: "r \<le> ucast (load_size h0 b)"
    using k' by (simp add: fits_nat sz0 r)
  have unused: "\<not> load_in_use h0 b"
    by (simp add: load_in_use_def h0 in_use_pack)
  have "unat (r + 8 + 8) = R + 16"
    using Rb r by (simp add: unat_plus_if_size word_size)
  then have spl: "is_splitable h0 b r"
    using k' by (simp add: is_splitable_def sizeof_block_header_def min_alloc_size_def
          fits_nat sz0)
  have rr: "(ucast (ucast r :: 31 word) :: 32 word) = r"
    using Rb r by (simp add: ucast_ucast_small)
  have ge: "get_end (store_size h0 b (ucast r)) b = nn"
    by (simp add: get_end_def store_size_def load_size_def sizeof_block_header_def
          size_pack rr nn_def ls)
  have sp: "split h0 b r =
      store_next
        (store_size
           (store_next (memset_block_header (store_size h0 b (ucast r)) nn) b nn) nn
           (ucast ((ucast (load_size
                      (store_next (memset_block_header (store_size h0 b (ucast r)) nn) b nn) b)
                    :: u32) - r - sizeof_block_header)))
        nn (get_next h0 b)"
    by (simp only: split_def Let_def ge)
  define g :: "31 word" where "g = 4294967288"
  define h6 where "h6 = store_in_use (split h0 b r) b True"
  have h6: "load32 h6 hb = b" "load32 h6 b = nn" "load32 h6 (b + 4) = pack (ucast r) True"
    "load32 h6 nn = 0" "load32 h6 (nn + 4) = pack g False"
    by (simp_all add: h6_def sp store_in_use_def store_size_def store_next_def
          get_next_def load_size_def load_in_use_def memset_block_header_def
          sizeof_block_header_def h0 size_pack in_use_pack rr g_def ls)
  have loop: "try_malloc_loop r b h0 = Some (get_alloc b, h6)"
    using try_malloc_loop_fit [OF b0 fit unused] spl by (simp add: h6_def)
  have run: "try_malloc hw k (init_allocator hw h) = Some (b + 8, h6)"
    using loop
    by (simp add: try_malloc_def total_list_def Let_def r_def [symmetric] hb_def [symmetric]
          h0_def [symmetric] h0 get_alloc_def sizeof_block_header_def)
  have c2: "chain h6 nn = Some [\<lparr>addr = nn, size' = g, in_use = False\<rparr>]"
    by (simp add: chain_step [OF nn0] get_next_def h6 chain_null load_size_def load_in_use_def
          size_pack in_use_pack)
  have c1: "chain h6 b =
      Some [\<lparr>addr = b, size' = ucast r, in_use = True\<rparr>, \<lparr>addr = nn, size' = g, in_use = False\<rparr>]"
    by (simp add: chain_step [OF b0] get_next_def h6 c2 load_size_def load_in_use_def
          size_pack in_use_pack)
  have bl: "blocks hw h6 =
      Some [\<lparr>addr = b, size' = ucast r, in_use = True\<rparr>, \<lparr>addr = nn, size' = g, in_use = False\<rparr>]"
    by (simp add: blocks_def total_list_def hb_def [symmetric] h6 c1)
  have s31: "(ucast r :: 31 word) = word_of_nat R"
    using r by (rule ucast_of_nat)
  have "r = word_of_nat (unat r)"
    by simp
  then have s32: "r = word_of_nat R"
    by (simp only: r)
  have res: "try_malloc_blocks hw k (init_allocator hw h) =
      Some (b + 8, Some [\<lparr>addr = b, size' = word_of_nat R, in_use = True\<rparr>,
                         \<lparr>addr = nn, size' = g, in_use = False\<rparr>])"
    by (simp add: try_malloc_blocks_def run bl s31)
  have nn': "nn = b + 8 + word_of_nat R"
    unfolding nn_def by (subst s32) simp
  have u: "unat (word_of_nat R :: 31 word) = R"
    using Rb by (simp add: unat_of_nat)
  have "try_malloc_blocks hw k (init_allocator hw h) =
           Some (b + 8, Some [\<lparr>addr = b, size' = word_of_nat R, in_use = True\<rparr>,
                              \<lparr>addr = nn, size' = g, in_use = False\<rparr>])
         \<and> unat (word_of_nat R :: 31 word) = R
         \<and> \<not> in_use \<lparr>addr = nn, size' = g, in_use = False\<rparr>
         \<and> addr \<lparr>addr = nn, size' = g, in_use = False\<rparr> = b + 8 + word_of_nat R"
    using res u nn' by simp
  then show ?thesis
    unfolding b_def hb_def R_def sizeof_block_header_def sizeof_allocator_global_def
    by blast
qed

theorem alloc_fresh_arena_split_witness:
  "round_up_4 (unat (5 :: 32 word)) + 2 * unat sizeof_block_header + 8
     \<le> unat (heap_size hardware_example)
   \<and> unat (heap_size hardware_example) - unat sizeof_block_header < 2 ^ 31
   \<and> unat (heap_begin hardware_example) + unat sizeof_allocator_global
       + unat (heap_size hardware_example) \<le> 2 ^ 32
   \<and> (\<exists>nb. try_malloc_blocks hardware_example 5 (init_allocator hardware_example memory_zero) =
         Some (24588, Some [\<lparr>addr = 24580, size' = 8, in_use = True\<rparr>, nb])
        \<and> \<not> in_use nb \<and> addr nb = 24596)"
proof -
  have h1: "round_up_4 (unat (5 :: 32 word)) + 2 * unat sizeof_block_header + 8
     \<le> unat (heap_size hardware_example)"
    by (simp add: round_up_4_def hardware_example_def sizeof_block_header_def)
  have h2: "unat (heap_size hardware_example) - unat sizeof_block_header < 2 ^ 31"
    by (simp add: hardware_example_def sizeof_block_header_def)
  have h3: "unat (heap_begin hardware_example) + unat sizeof_allocator_global
       + unat (heap_size hardware_example) \<le> 2 ^ 32"
    by (simp add: hardware_example_def sizeof_allocator_global_def)
  have r: "round_up_4 5 = 8"
    by (simp add: round_up_4_def)
  have "\<exists>nb. try_malloc_blocks hardware_example 5 (init_allocator hardware_example memory_zero) =
         Some (24588, Some [\<lparr>addr = 24580, size' = 8, in_use = True\<rparr>, nb])
        \<and> \<not> in_use nb \<and> addr nb = 24596"
    using alloc_fresh_arena_split [OF h1 h2 h3, of memory_zero]
    by (simp add: r hardware_example_def sizeof_block_header_def sizeof_allocator_global_def)
  with h1 h2 h3 show ?thesis
    by blast
qed

text \<open>
  Claim C4, as stated, on a fresh arena of 4096 bytes with the request \<open>k = 4076\<close>:
  \<open>k\<close> plus a header plus the minimum allocation size is below the arena size, yet
  the allocation leaves one block, in use, of 4088 bytes.
\<close>

theorem alloc_fresh_arena_one_block_counterexample:
  "unat (4076 :: 32 word) + unat sizeof_block_header + unat min_alloc_size
     < unat (heap_size hardware_example)
   \<and> try_malloc_blocks hardware_example 4076 (init_allocator hardware_example memory_zero) =
       Some (24588, Some [\<lparr>addr = 24580, size' = 4088, in_use = True\<rparr>])"
  by (simp add: alloc_eval)

text \<open>
  Claim C6, at the first allocation on a fresh arena of 4096 bytes. The fresh arena is
  tiled by its single block. The allocation of 8 bytes splits that block, and the new
  free block gets the size \<open>2 ^ 31 - 8\<close> instead of the remainder 4072: \<open>split\<close> reads
  the size of the block after overwriting it, where the saved \<^verbatim>\<open>old_size\<close> was meant.
  The blocks no longer tile the arena.
\<close>

theorem alloc_split_breaks_tiling:
  "tiles_arena hardware_example (init_allocator hardware_example h)
   \<and> try_malloc_blocks hardware_example 8 (init_allocator hardware_example h) =
       Some (24588,
             Some [\<lparr>addr = 24580, size' = 8, in_use = True\<rparr>,
                   \<lparr>addr = 24596, size' = 2147483640, in_use = False\<rparr>])
   \<and> (\<exists>h'. try_malloc hardware_example 8 (init_allocator hardware_example h) = Some (24588, h')
          \<and> \<not> tiles_arena hardware_example h')"
  by (simp add: tiles_arena_def arena_begin_def alloc_eval)

text \<open>
  Claim C5, at the request \<open>0xFFFFFFFF\<close> on a fresh arena of 16 bytes, which holds one
  free block of 8 bytes. Rounding the request up wraps around to 0, and \<open>try_malloc\<close>
  hands out the block, far smaller than the request, where the claim has it return the
  null pointer.
\<close>

theorem try_malloc_wraps:
  "((0xFFFFFFFF + (alloc_align - 1)) AND NOT (alloc_align - 1) :: 32 word) = 0
   \<and> blocks \<lparr>heap_begin = 0x6000, heap_size = 16\<rparr>
        (init_allocator \<lparr>heap_begin = 0x6000, heap_size = 16\<rparr> h) =
       Some [\<lparr>addr = 0x6004, size' = 8, in_use = False\<rparr>]
   \<and> try_malloc_blocks \<lparr>heap_begin = 0x6000, heap_size = 16\<rparr> 0xFFFFFFFF
        (init_allocator \<lparr>heap_begin = 0x6000, heap_size = 16\<rparr> h) =
       Some (0x600C, Some [\<lparr>addr = 0x6004, size' = 8, in_use = True\<rparr>])"
  by (simp add: alloc_eval)

subsection \<open>A release that does not give the memory back\<close>

lemma scenario_step_1:
  assumes "words h tracked =
        [24580, 0, 4088, 0, 0, 0, 0, 0, 0, 0, 0, 0, 0, 0, 0, 0]"
  shows "\<exists>h'. try_malloc hardware_example 48 h = Some (24588, h')
      \<and> words h' tracked =
        [24580, 24636, 2147483696, 0, 0, 0, 2147483640, 0, 0, 0, 0, 0, 0, 0, 0, 0]"
  using assms by (simp add: words_def tracked_def alloc_eval pack_def)

lemma scenario_step_2:
  assumes "words h tracked =
        [24580, 24636, 2147483696, 0, 0, 0, 2147483640, 0, 0, 0, 0, 0, 0, 0, 0, 0]"
  shows "words (free 24588 h) tracked =
        [24580, 24636, 48, 0, 0, 0, 2147483640, 0, 0, 0, 0, 0, 0, 0, 0, 0]"
  using assms by (simp add: words_def tracked_def alloc_eval pack_def)

lemma scenario_step_3:
  assumes "words h tracked =
        [24580, 24636, 48, 0, 0, 0, 2147483640, 0, 0, 0, 0, 0, 0, 0, 0, 0]"
  shows "\<exists>h'. try_malloc hardware_example 200 h = Some (24644, h')
      \<and> words h' tracked =
        [24580, 24636, 48, 0, 0, 24844, 2147483848, 0, 0, 0, 0, 0, 0, 2147483640, 0, 0]"
  using assms by (simp add: words_def tracked_def alloc_eval pack_def)

lemma scenario_step_4:
  assumes "words h tracked =
        [24580, 24636, 48, 0, 0, 24844, 2147483848, 0, 0, 0, 0, 0, 0, 2147483640, 0, 0]"
  shows "words (free 24644 h) tracked =
        [24580, 24636, 48, 0, 0, 24844, 200, 0, 0, 0, 0, 0, 0, 2147483640, 0, 0]"
  using assms by (simp add: words_def tracked_def alloc_eval pack_def)

lemma scenario_step_5:
  assumes "words h tracked =
        [24580, 24636, 48, 0, 0, 24844, 200, 0, 0, 0, 0, 0, 0, 2147483640, 0, 0]"
  shows "\<exists>h'. try_malloc hardware_example 20 h = Some (24588, h')
      \<and> words h' tracked =
        [24580, 24608, 2147483668, 24636, 2147483640, 24844, 200, 0, 0, 0, 0, 0, 0,
         2147483640, 0, 0]"
  using assms by (simp add: words_def tracked_def alloc_eval pack_def)

lemma scenario_step_6:
  assumes "words h tracked =
        [24580, 24608, 2147483668, 24636, 2147483640, 24844, 200, 0, 0, 0, 0, 0, 0,
         2147483640, 0, 0]"
  shows "words (free 24588 h) tracked =
        [24580, 24608, 20, 24636, 2147483640, 24844, 200, 0, 0, 0, 0, 0, 0, 2147483640, 0,
         0]"
  using assms by (simp add: words_def tracked_def alloc_eval pack_def)

lemma scenario_step_7:
  assumes "words h tracked =
        [24580, 24608, 20, 24636, 2147483640, 24844, 200, 0, 0, 0, 0, 0, 0, 2147483640, 0,
         0]"
  shows "\<exists>h'. try_malloc hardware_example 100 h = Some (24616, h')
      \<and> words h' tracked =
        [24580, 24608, 20, 24716, 2147483748, 24844, 200, 24636, 2147483640, 0, 0, 0, 0,
         2147483640, 0, 0]"
  using assms by (simp add: words_def tracked_def alloc_eval pack_def)

lemma scenario_step_8:
  assumes "words h tracked =
        [24580, 24608, 20, 24716, 2147483748, 24844, 200, 24636, 2147483640, 0, 0, 0, 0,
         2147483640, 0, 0]"
  shows "\<exists>h'. try_malloc hardware_example 24 h = Some (24724, h')
      \<and> words h' tracked =
        [24580, 24608, 20, 24716, 2147483748, 24844, 200, 24748, 2147483672, 0, 24636,
         2147483640, 0, 2147483640, 0, 0]"
  using assms by (simp add: words_def tracked_def alloc_eval pack_def)

lemma scenario_step_9:
  assumes "words h tracked =
        [24580, 24608, 20, 24716, 2147483748, 24844, 200, 24748, 2147483672, 0, 24636,
         2147483640, 0, 2147483640, 0, 0]"
  shows "\<exists>h'. try_malloc hardware_example 2147483640 h = Some (24756, h')
      \<and> words h' tracked =
        [24580, 24608, 20, 24716, 2147483748, 24844, 200, 24748, 2147483672, 0, 24636,
         4294967288, 0, 2147483640, 0, 0]"
  using assms by (simp add: words_def tracked_def alloc_eval pack_def)

lemma scenario_step_10:
  assumes "words h tracked =
        [24580, 24608, 20, 24716, 2147483748, 24844, 200, 24748, 2147483672, 0, 24636,
         4294967288, 0, 2147483640, 0, 0]"
  shows "\<exists>h'. try_malloc hardware_example 100 h = Some (24644, h')
      \<and> words h' tracked =
        [24580, 24608, 20, 24716, 2147483748, 24744, 2147483748, 24748, 2147483672, 24844,
         2147483640, 4294967288, 0, 2147483640, 0, 0]"
  using assms by (simp add: words_def tracked_def alloc_eval pack_def)

lemma scenario_step_11:
  assumes "words h tracked =
        [24580, 24608, 20, 24716, 2147483748, 24744, 2147483748, 24748, 2147483672, 24844,
         2147483640, 4294967288, 0, 2147483640, 0, 0]"
  shows "words (free 24644 h) tracked =
        [24580, 24608, 20, 24716, 2147483748, 24744, 100, 24748, 2147483672, 24844,
         2147483640, 4294967288, 0, 2147483640, 0, 0]"
  using assms by (simp add: words_def tracked_def alloc_eval pack_def)

lemma scenario_step_12:
  assumes "words h tracked =
        [24580, 24608, 20, 24716, 2147483748, 24744, 100, 24748, 2147483672, 24844,
         2147483640, 4294967288, 0, 2147483640, 0, 0]"
  shows "\<exists>h'. try_malloc hardware_example 100 h = Some (0, h')
      \<and> words h' tracked =
        [24580, 24608, 20, 24716, 2147483748, 24744, 100, 24748, 2147483672, 24844,
         2147483640, 4294967288, 0, 2147483640, 0, 0]"
  using assms by (simp add: words_def tracked_def alloc_eval pack_def)

text \<open>
  Claim C7, at a state that ordinary calls reach on a fresh arena of 4096 bytes in
  zeroed memory. The sizes that \<open>split\<close> gives the blocks it creates let later splits
  place headers anywhere: the allocation of 100 bytes that returns 24644 writes the
  size word of its new header, at 24748, over the \<open>next\<close> pointer of the header of a
  block in use. After that allocation and the release of its pointer, the walk of the
  second allocation of 100 bytes leaves the chain at that header and ends at the null
  pointer: the allocation fails.
\<close>

theorem malloc_free_malloc_fails:
  "map_option fst
     (calls hardware_example
        [Malloc 48, Free 24588, Malloc 200, Free 24644, Malloc 20, Free 24588, Malloc 100,
         Malloc 24, Malloc 2147483640, Malloc 100, Free 24644, Malloc 100]
        (init_allocator hardware_example memory_zero)) =
   Some [24588, 24644, 24588, 24616, 24724, 24756, 24644, 0]"
proof -
  have s0: "words (init_allocator hardware_example memory_zero) tracked =
        [24580, 0, 4088, 0, 0, 0, 0, 0, 0, 0, 0, 0, 0, 0, 0, 0]"
    by (simp add: words_def tracked_def alloc_eval pack_def)
  from scenario_step_1 [OF s0]
  obtain h1 where c1: "try_malloc hardware_example 48 (init_allocator hardware_example memory_zero) = Some (24588, h1)"
    and s1: "words h1 tracked =
        [24580, 24636, 2147483696, 0, 0, 0, 2147483640, 0, 0, 0, 0, 0, 0, 0, 0, 0]"
    by blast
  note s2 = scenario_step_2 [OF s1]
  from scenario_step_3 [OF s2]
  obtain h2 where c3: "try_malloc hardware_example 200 (free 24588 h1) = Some (24644, h2)"
    and s3: "words h2 tracked =
        [24580, 24636, 48, 0, 0, 24844, 2147483848, 0, 0, 0, 0, 0, 0, 2147483640, 0, 0]"
    by blast
  note s4 = scenario_step_4 [OF s3]
  from scenario_step_5 [OF s4]
  obtain h3 where c5: "try_malloc hardware_example 20 (free 24644 h2) = Some (24588, h3)"
    and s5: "words h3 tracked =
        [24580, 24608, 2147483668, 24636, 2147483640, 24844, 200, 0, 0, 0, 0, 0, 0,
         2147483640, 0, 0]"
    by blast
  note s6 = scenario_step_6 [OF s5]
  from scenario_step_7 [OF s6]
  obtain h4 where c7: "try_malloc hardware_example 100 (free 24588 h3) = Some (24616, h4)"
    and s7: "words h4 tracked =
        [24580, 24608, 20, 24716, 2147483748, 24844, 200, 24636, 2147483640, 0, 0, 0, 0,
         2147483640, 0, 0]"
    by blast
  from scenario_step_8 [OF s7]
  obtain h5 where c8: "try_malloc hardware_example 24 (h4) = Some (24724, h5)"
    and s8: "words h5 tracked =
        [24580, 24608, 20, 24716, 2147483748, 24844, 200, 24748, 2147483672, 0, 24636,
         2147483640, 0, 2147483640, 0, 0]"
    by blast
  from scenario_step_9 [OF s8]
  obtain h6 where c9: "try_malloc hardware_example 2147483640 (h5) = Some (24756, h6)"
    and s9: "words h6 tracked =
        [24580, 24608, 20, 24716, 2147483748, 24844, 200, 24748, 2147483672, 0, 24636,
         4294967288, 0, 2147483640, 0, 0]"
    by blast
  from scenario_step_10 [OF s9]
  obtain h7 where c10: "try_malloc hardware_example 100 (h6) = Some (24644, h7)"
    and s10: "words h7 tracked =
        [24580, 24608, 20, 24716, 2147483748, 24744, 2147483748, 24748, 2147483672, 24844,
         2147483640, 4294967288, 0, 2147483640, 0, 0]"
    by blast
  note s11 = scenario_step_11 [OF s10]
  from scenario_step_12 [OF s11]
  obtain h8 where c12: "try_malloc hardware_example 100 (free 24644 h7) = Some (0, h8)"
    and s12: "words h8 tracked =
        [24580, 24608, 20, 24716, 2147483748, 24744, 100, 24748, 2147483672, 24844,
         2147483640, 4294967288, 0, 2147483640, 0, 0]"
    by blast
  show ?thesis
    by (simp add: c1 c3 c5 c7 c8 c9 c10 c12)
qed

end
